theory Spec2Isabelle
  imports Main
begin

section \<open>The backend as the client sees it\<close>

text \<open>
  Every backend call goes through axios and settles in one of two ways: the promise
  resolves with the response, or it rejects with an error object. The components read
  four things of a rejected call: \<^verbatim>\<open>err.code\<close>, \<^verbatim>\<open>err.response\<close>
  (with its \<^verbatim>\<open>status\<close> and \<^verbatim>\<open>data.error\<close>), \<^verbatim>\<open>err.request\<close> and
  \<^verbatim>\<open>err.message\<close>. An absent property (\<^verbatim>\<open>undefined\<close>) is \<open>None\<close>.
\<close>

record error_response =
  resp_status :: int
  resp_error :: "string option"

record api_error =
  err_code :: "string option"
  err_response :: "error_response option"
  err_request :: bool
  err_message :: string

datatype 'a settled = Resolved 'a | Rejected api_error

text \<open>
  The body of \<^verbatim>\<open>GET /files\<close>: \<^verbatim>\<open>res.data.files\<close>, a list of documents when the
  field is there.
\<close>

record document =
  doc_id :: nat
  filename :: string

record files_body =
  files :: "document list option"

text \<open>The body of \<^verbatim>\<open>POST /upload\<close>: \<^verbatim>\<open>res.data?.message\<close>.\<close>

record upload_body =
  upload_message :: "string option"

text \<open>A browser \<^verbatim>\<open>File\<close>: the handlers read its \<^verbatim>\<open>size\<close>, in bytes.\<close>

record js_file =
  file_name :: string
  file_size :: nat

section \<open>What a handler does to the outside\<close>

text \<open>
  A handler's calls to the outside, in the order it makes them. A callback handed to
  \<^verbatim>\<open>setTimeout\<close> is a \<open>task\<close>: it is listed where it is scheduled, with its delay in
  milliseconds, and runs later. \<open>Sleep\<close> is
  \<^verbatim>\<open>await new Promise(resolve => setTimeout(resolve, d))\<close>, \<open>Navigate\<close> the
  router's \<^verbatim>\<open>navigate(path)\<close>, \<open>RemoveItem\<close> is
  \<^verbatim>\<open>localStorage.removeItem(key)\<close> and \<open>SetHref\<close> the assignment to
  \<^verbatim>\<open>window.location.href\<close>. Console logging is left out.
\<close>

datatype task = FetchFiles int | NavigateTo string

datatype effect =
    ApiGet string
  | ApiPostFile string string js_file
  | ApiPostJson string string string
  | Sleep nat
  | SetTimeout nat task
  | Alert string
  | Navigate string
  | RemoveItem string
  | SetHref string

fun is_network :: "effect \<Rightarrow> bool" where
  "is_network (ApiGet _) = True"
| "is_network (ApiPostFile _ _ _) = True"
| "is_network (ApiPostJson _ _ _) = True"
| "is_network _ = False"

fun is_navigation :: "effect \<Rightarrow> bool" where
  "is_navigation (Navigate _) = True"
| "is_navigation (SetTimeout _ (NavigateTo _)) = True"
| "is_navigation _ = False"

section \<open>ChatUpload: the file list\<close>

text \<open>
  The state of the \<^verbatim>\<open>ChatUpload\<close> component (both versions of
  \<^verbatim>\<open>chatUpload.jsx\<close>): the \<^verbatim>\<open>useState\<close> cells the handlers below write.
\<close>

record chatUpload =
  cu_uploadedFiles :: "document list"
  cu_isUploading :: bool

text \<open>
  \<^verbatim>\<open>fetchFiles\<close> of the first version: one \<^verbatim>\<open>GET /files\<close>;
  \<^verbatim>\<open>setUploadedFiles(res.data.files || [])\<close> when it resolves, nothing but a log line
  when it rejects.
\<close>

definition fetchFiles_v1 :: "files_body settled \<Rightarrow> chatUpload \<Rightarrow> chatUpload \<times> effect list" where
  "fetchFiles_v1 res st =
     (case res of
        Resolved body \<Rightarrow>
          (st\<lparr>cu_uploadedFiles := (case files body of Some fs \<Rightarrow> fs | None \<Rightarrow> [])\<rparr>,
           [ApiGet ''/files''])
      | Rejected err \<Rightarrow> (st, [ApiGet ''/files'']))"

text \<open>
  \<^verbatim>\<open>fetchFiles(retryCount = 1)\<close> of the second version, "with simple retry": one call
  of the function. When the request rejects and \<^verbatim>\<open>retryCount > 0\<close>, it schedules
  \<^verbatim>\<open>fetchFiles(retryCount - 1)\<close> 500 ms later and returns.
\<close>

definition fetchFiles :: "int \<Rightarrow> files_body settled \<Rightarrow> chatUpload \<Rightarrow> chatUpload \<times> effect list" where
  "fetchFiles retryCount res st =
     (case res of
        Resolved body \<Rightarrow>
          (st\<lparr>cu_uploadedFiles := (case files body of Some fs \<Rightarrow> fs | None \<Rightarrow> [])\<rparr>,
           [ApiGet ''/files''])
      | Rejected err \<Rightarrow>
          (st, ApiGet ''/files'' #
               (if retryCount > 0 then [SetTimeout 500 (FetchFiles (retryCount - 1))] else [])))"

text \<open>
  A whole refresh: the call of \<^verbatim>\<open>fetchFiles\<close> and the retries its timers start, one
  after the other. \<open>api k\<close> is how the \<open>k\<close>-th \<^verbatim>\<open>GET /files\<close> of the refresh settles.
\<close>

function fetchFiles_run ::
  "int \<Rightarrow> (nat \<Rightarrow> files_body settled) \<Rightarrow> nat \<Rightarrow> chatUpload \<Rightarrow> chatUpload \<times> effect list" where
  "fetchFiles_run retryCount api k st =
     (case fetchFiles retryCount (api k) st of
        (st', evs) \<Rightarrow>
          if SetTimeout 500 (FetchFiles (retryCount - 1)) \<in> set evs
          then (case fetchFiles_run (retryCount - 1) api (Suc k) st' of
                  (st'', evs') \<Rightarrow> (st'', evs @ evs'))
          else (st', evs))"
  by pat_completeness auto
termination
  by (relation "measure (\<lambda>(retryCount, api, k, st). nat retryCount)")
     (auto simp: fetchFiles_def split: settled.splits if_splits)

text \<open>The default argument: every caller writes \<^verbatim>\<open>fetchFiles()\<close>.\<close>

definition fetchFiles_default :: int where
  "fetchFiles_default = 1"

definition attempts :: "effect list \<Rightarrow> nat" where
  "attempts evs = length (filter (\<lambda>e. e = ApiGet ''/files'') evs)"

text \<open>
  \<^verbatim>\<open>handleFileChange\<close> of \<^verbatim>\<open>ChatUpload\<close>, second version: the file chosen in
  the picker (\<^verbatim>\<open>e.target.files?.[0]\<close>, \<open>None\<close> when the dialog was cancelled) is checked
  against the 5 MB limit and then uploaded at once. \<open>post\<close> is how \<^verbatim>\<open>POST /upload\<close>
  settles and \<open>get\<close> how the \<^verbatim>\<open>GET /files\<close> of the refresh does. After a successful
  upload the handler waits one second, awaits \<^verbatim>\<open>fetchFiles()\<close> and tells the user.
\<close>

definition maxFileSize :: nat where
  "maxFileSize = 5 * 1024 * 1024"

definition handleFileChange ::
  "js_file option \<Rightarrow> upload_body settled \<Rightarrow> files_body settled \<Rightarrow> chatUpload
     \<Rightarrow> chatUpload \<times> effect list" where
  "handleFileChange selected post get st =
     (case selected of
        None \<Rightarrow> (st, [])
      | Some f \<Rightarrow>
          if file_size f > maxFileSize
          then (st, [Alert ''File size exceeds 5MB. Please choose a smaller file.''])
          else
            (case post of
               Resolved body \<Rightarrow>
                 (case fetchFiles fetchFiles_default get (st\<lparr>cu_isUploading := True\<rparr>) of
                    (st', evs) \<Rightarrow>
                      (st'\<lparr>cu_isUploading := False\<rparr>,
                       [ApiPostFile ''/upload'' ''document'' f, Sleep 1000] @ evs @
                       [Alert (case upload_message body of
                                 None \<Rightarrow> ''File uploaded successfully''
                               | Some m \<Rightarrow> if m = [] then ''File uploaded successfully'' else m)]))
             | Rejected err \<Rightarrow>
                 (st\<lparr>cu_isUploading := False\<rparr>,
                  [ApiPostFile ''/upload'' ''document'' f,
                   Alert (case err_response err of
                            None \<Rightarrow> ''Upload failed''
                          | Some r \<Rightarrow>
                              (case resp_error r of
                                 None \<Rightarrow> ''Upload failed''
                               | Some m \<Rightarrow> if m = [] then ''Upload failed'' else m))])))"

text \<open>
  The first version: the form field is \<^verbatim>\<open>file\<close>, there is no wait, and the refresh is
  the \<^verbatim>\<open>fetchFiles\<close> without retry.
\<close>

definition handleFileChange_v1 ::
  "js_file option \<Rightarrow> upload_body settled \<Rightarrow> files_body settled \<Rightarrow> chatUpload
     \<Rightarrow> chatUpload \<times> effect list" where
  "handleFileChange_v1 selected post get st =
     (case selected of
        None \<Rightarrow> (st, [])
      | Some f \<Rightarrow>
          if file_size f > maxFileSize
          then (st, [Alert ''File > 5MB. Choose a smaller file.''])
          else
            (case post of
               Resolved body \<Rightarrow>
                 (case fetchFiles_v1 get (st\<lparr>cu_isUploading := True\<rparr>) of
                    (st', evs) \<Rightarrow>
                      (st'\<lparr>cu_isUploading := False\<rparr>,
                       [ApiPostFile ''/upload'' ''file'' f] @ evs @
                       [Alert (case upload_message body of
                                 None \<Rightarrow> ''Uploaded successfully''
                               | Some m \<Rightarrow> if m = [] then ''Uploaded successfully'' else m)]))
             | Rejected err \<Rightarrow>
                 (st\<lparr>cu_isUploading := False\<rparr>,
                  [ApiPostFile ''/upload'' ''file'' f,
                   Alert (case err_response err of
                            None \<Rightarrow> ''Upload failed''
                          | Some r \<Rightarrow>
                              (case resp_error r of
                                 None \<Rightarrow> ''Upload failed''
                               | Some m \<Rightarrow> if m = [] then ''Upload failed'' else m))])))"

section \<open>Upload: choose a file, then submit it\<close>

text \<open>
  The \<^verbatim>\<open>Upload\<close> component with the progress bar. Its state is the five
  \<^verbatim>\<open>useState\<close> cells; \<^verbatim>\<open>file\<close> is \<open>None\<close> while nothing is chosen. The
  callback \<^verbatim>\<open>onUploadProgress\<close>, which writes nothing but \<^verbatim>\<open>progress\<close> while the
  request is open, is left out.
\<close>

record upload =
  up_file :: "js_file option"
  up_isLoading :: bool
  up_error :: string
  up_success :: bool
  up_progress :: nat

definition Upload_init :: upload where
  "Upload_init = \<lparr>up_file = None, up_isLoading = False, up_error = [], up_success = False,
                   up_progress = 0\<rparr>"

text \<open>
  \<^verbatim>\<open>handleFileChange\<close>: a file over 5 MB sets the error and returns before
  \<^verbatim>\<open>setFile\<close>; anything else (also no file) becomes the chosen file.
\<close>

definition Upload_handleFileChange :: "js_file option \<Rightarrow> upload \<Rightarrow> upload" where
  "Upload_handleFileChange selectedFile st =
     (if (case selectedFile of None \<Rightarrow> False | Some f \<Rightarrow> file_size f > maxFileSize)
      then st\<lparr>up_error := ''File size exceeds 5MB limit''\<rparr>
      else st\<lparr>up_file := selectedFile, up_error := [], up_success := False, up_progress := 0\<rparr>)"

text \<open>
  \<^verbatim>\<open>handleSubmit\<close> up to its \<^verbatim>\<open>await\<close>: without a file it sets the error and
  returns; with one it starts the multipart \<^verbatim>\<open>POST /upload\<close> of the chosen file.
\<close>

definition Upload_handleSubmit :: "upload \<Rightarrow> upload \<times> effect list" where
  "Upload_handleSubmit st =
     (case up_file st of
        None \<Rightarrow> (st\<lparr>up_error := ''Please select a file''\<rparr>, [])
      | Some f \<Rightarrow>
          (st\<lparr>up_isLoading := True, up_error := [], up_progress := 0\<rparr>,
           [ApiPostFile ''/upload'' ''document'' f]))"

text \<open>
  \<^verbatim>\<open>handleSubmit\<close> from the \<^verbatim>\<open>await\<close> on, when the request has settled: success
  shows the message and schedules the navigation to the chat 1500 ms later; failure
  picks the error text. \<^verbatim>\<open>finally\<close> ends the loading state either way.
\<close>

definition Upload_errorText :: "api_error \<Rightarrow> string" where
  "Upload_errorText err =
     (if err_code err = Some ''ECONNABORTED''
      then ''Processing took too long. Try a smaller file.''
      else
        (case (case err_response err of None \<Rightarrow> None | Some r \<Rightarrow> resp_error r) of
           Some m \<Rightarrow>
             if m \<noteq> [] then m
             else if err_message err \<noteq> [] then err_message err
             else ''Upload failed. Please try again.''
         | None \<Rightarrow>
             if err_message err \<noteq> [] then err_message err
             else ''Upload failed. Please try again.''))"

definition Upload_handleSubmit_settled :: "upload_body settled \<Rightarrow> upload \<Rightarrow> upload \<times> effect list" where
  "Upload_handleSubmit_settled res st =
     (case res of
        Resolved body \<Rightarrow>
          (st\<lparr>up_success := True, up_isLoading := False\<rparr>,
           [SetTimeout 1500 (NavigateTo ''/chatbot'')])
      | Rejected err \<Rightarrow>
          (st\<lparr>up_error := Upload_errorText err, up_isLoading := False\<rparr>, []))"

text \<open>
  The component over time: the user chooses files and submits, requests settle. The
  effects of all handlers are collected in order. A \<open>Settled\<close> event is taken whether or
  not a request is open, which only adds behaviours.
\<close>

datatype upload_event =
    FileChange "js_file option"
  | Submit
  | Settled "upload_body settled"

fun Upload_step :: "upload \<times> effect list \<Rightarrow> upload_event \<Rightarrow> upload \<times> effect list" where
  "Upload_step (st, sofar) (FileChange selectedFile) = (Upload_handleFileChange selectedFile st, sofar)"
| "Upload_step (st, sofar) Submit =
     (case Upload_handleSubmit st of (st', evs) \<Rightarrow> (st', sofar @ evs))"
| "Upload_step (st, sofar) (Settled res) =
     (case Upload_handleSubmit_settled res st of (st', evs) \<Rightarrow> (st', sofar @ evs))"

definition Upload_run :: "upload_event list \<Rightarrow> upload \<times> effect list" where
  "Upload_run events = foldl Upload_step (Upload_init, []) events"

text \<open>The files that the effects send to the backend.\<close>

fun posted_files :: "effect list \<Rightarrow> js_file list" where
  "posted_files [] = []"
| "posted_files (ApiPostFile path field f # evs) = f # posted_files evs"
| "posted_files (e # evs) = posted_files evs"

text \<open>
  What holds of \<^verbatim>\<open>Upload\<close> at every moment: the chosen file, when there is one,
  is within the limit, and so is every file sent so far.
\<close>

definition Upload_inv :: "upload \<times> effect list \<Rightarrow> bool" where
  "Upload_inv c =
     ((case up_file (fst c) of None \<Rightarrow> True | Some g \<Rightarrow> file_size g \<le> maxFileSize)
      \<and> list_all (\<lambda>g. file_size g \<le> maxFileSize) (posted_files (snd c)))"

section \<open>The session: localStorage, the interceptor, the gates, logout\<close>

text \<open>
  What the session code reads and writes of the browser: \<^verbatim>\<open>localStorage\<close>, a map
  from keys to strings (\<^verbatim>\<open>getItem\<close> of a missing key is \<^verbatim>\<open>null\<close>, here \<open>None\<close>),
  and the path the browser is at.
\<close>

record browser =
  localStorage :: "string \<rightharpoonup> string"
  location :: string




text \<open>
  The gates. \<^verbatim>\<open>ProtectedRoute\<close> and \<^verbatim>\<open>PublicRoute\<close> of the first \<^verbatim>\<open>App.js\<close> wrap
  the routes \<^verbatim>\<open>/upload\<close>, \<^verbatim>\<open>/chat\<close> and \<^verbatim>\<open>/\<close> (the login page) and read the
  key \<^verbatim>\<open>isAuthenticated\<close>. \<^verbatim>\<open>ChatUpload\<close> checks the token itself when it mounts: a
  missing or empty token navigates to \<^verbatim>\<open>/login\<close>, otherwise the component goes on to
  \<^verbatim>\<open>fetchFiles()\<close>.
\<close>

datatype decision = Allow | Redirect string

definition ProtectedRoute :: "browser \<Rightarrow> decision" where
  "ProtectedRoute b =
     (if localStorage b ''isAuthenticated'' = Some ''true'' then Allow else Redirect ''/'')"

definition PublicRoute :: "browser \<Rightarrow> decision" where
  "PublicRoute b =
     (if localStorage b ''isAuthenticated'' \<noteq> Some ''true'' then Allow else Redirect ''/upload'')"

definition ChatUpload_onMount_v1 :: "browser \<Rightarrow> decision" where
  "ChatUpload_onMount_v1 b =
     (case localStorage b ''token'' of
        None \<Rightarrow> Redirect ''/login''
      | Some token \<Rightarrow> if token = [] then Redirect ''/login'' else Allow)"

text \<open>
  The second version navigates to \<^verbatim>\<open>/Login\<close>, which the router matches with the
  route \<^verbatim>\<open>/login\<close> (paths are compared without regard to case).
\<close>

definition ChatUpload_onMount :: "browser \<Rightarrow> decision" where
  "ChatUpload_onMount b =
     (case localStorage b ''token'' of
        None \<Rightarrow> Redirect ''/Login''
      | Some token \<Rightarrow> if token = [] then Redirect ''/Login'' else Allow)"



text \<open>
  \<^verbatim>\<open>handleLogout\<close>, as the components define it: the navigation bar (two versions),
  \<^verbatim>\<open>ChatUpload\<close> ("Keep localStorage values, just navigate away") and the chat and
  upload pages of the first application.
\<close>

definition Navbar_handleLogout :: "browser \<Rightarrow> browser \<times> effect list" where
  "Navbar_handleLogout b =
     (b\<lparr>localStorage := (localStorage b)(''token'' := None), location := ''/login''\<rparr>,
      [RemoveItem ''token'', Navigate ''/login''])"

definition Navbar_handleLogout_username :: "browser \<Rightarrow> browser \<times> effect list" where
  "Navbar_handleLogout_username b =
     (b\<lparr>localStorage := (localStorage b)(''token'' := None, ''username'' := None),
        location := ''/login''\<rparr>,
      [RemoveItem ''token'', RemoveItem ''username'', Navigate ''/login''])"

definition ChatUpload_handleLogout :: "browser \<Rightarrow> browser \<times> effect list" where
  "ChatUpload_handleLogout b = (b\<lparr>location := ''/login''\<rparr>, [Navigate ''/login''])"

definition Chatbot_handleLogout :: "browser \<Rightarrow> browser \<times> effect list" where
  "Chatbot_handleLogout b =
     (b\<lparr>localStorage := (localStorage b)(''isAuthenticated'' := None, ''username'' := None,
          ''filesUploaded'' := None),
        location := ''/''\<rparr>,
      [RemoveItem ''isAuthenticated'', RemoveItem ''username'', RemoveItem ''filesUploaded'',
       Navigate ''/''])"

section \<open>Chatbot: the conversation\<close>

text \<open>
  \<^verbatim>\<open>String.prototype.trim\<close> on the characters a \<open>char\<close> can be: tab, line feed,
  vertical tab, form feed, carriage return, space and no-break space are white space.
\<close>

definition isWhiteSpace :: "char \<Rightarrow> bool" where
  "isWhiteSpace c = (of_char c \<in> {9, 10, 11, 12, 13, 32, 160 :: nat})"

definition trim :: "string \<Rightarrow> string" where
  "trim s = rev (dropWhile isWhiteSpace (rev (dropWhile isWhiteSpace s)))"

text \<open>A number in a template literal: its decimal digits, with the sign.\<close>

fun digits :: "nat \<Rightarrow> string" where
  "digits n = (if n < 10 then [char_of (48 + n)] else digits (n div 10) @ [char_of (48 + n mod 10)])"

declare digits.simps [simp del]

definition Number_toString :: "int \<Rightarrow> string" where
  "Number_toString i = (if i < 0 then CHR ''-'' # digits (nat (- i)) else digits (nat i))"

text \<open>The body of \<^verbatim>\<open>POST /chat\<close>: \<^verbatim>\<open>response.data.reply\<close>.\<close>

record chat_body =
  reply :: "string option"

subsection \<open>The chat page with time stamps and error flags\<close>

text \<open>
  A message of this page: \<^verbatim>\<open>{id, text, sender, timestamp}\<close>, and \<^verbatim>\<open>isError: true\<close> on
  the messages that report a failure (\<open>None\<close> where the property is absent). Ids and
  time stamps come from the clock, in milliseconds.
\<close>

record message =
  msg_id :: int
  msg_text :: string
  msg_sender :: string
  msg_timestamp :: int
  msg_isError :: "bool option"

record chatbot =
  cb_messages :: "message list"
  cb_inputMessage :: string
  cb_isLoading :: bool
  cb_error :: string

definition Chatbot_init :: "int \<Rightarrow> chatbot" where
  "Chatbot_init now =
     \<lparr>cb_messages =
        [\<lparr>msg_id = 1,
          msg_text = ''Hello! I'm your AI assistant. I've processed your uploaded documents and I'm ready to help you find information, answer questions, or discuss the content. What would you like to know?'',
          msg_sender = ''bot'', msg_timestamp = now, msg_isError = None\<rparr>],
      cb_inputMessage = [], cb_isLoading = False, cb_error = []\<rparr>"

text \<open>
  \<^verbatim>\<open>handleSendMessage\<close> up to its \<^verbatim>\<open>await\<close>. With an input that trims to nothing,
  or while \<^verbatim>\<open>isLoading\<close>, it returns at once. Otherwise it appends the user's message,
  clears the input, sets \<^verbatim>\<open>isLoading\<close> and starts \<^verbatim>\<open>POST /chat\<close>.
\<close>

definition handleSendMessage :: "int \<Rightarrow> chatbot \<Rightarrow> chatbot \<times> effect list" where
  "handleSendMessage now st =
     (if trim (cb_inputMessage st) = [] \<or> cb_isLoading st then (st, [])
      else
        (st\<lparr>cb_messages := cb_messages st @
              [\<lparr>msg_id = now, msg_text = trim (cb_inputMessage st), msg_sender = ''user'',
                msg_timestamp = now, msg_isError = None\<rparr>],
            cb_inputMessage := [], cb_isLoading := True, cb_error := []\<rparr>,
         [ApiPostJson ''/chat'' ''message'' (trim (cb_inputMessage st))]))"

text \<open>The text a failed call is reported with.\<close>

definition errorMessage :: "api_error \<Rightarrow> string" where
  "errorMessage err =
     (if err_code err = Some ''ECONNABORTED'' then ''Request timed out. Please try again.''
      else
        (case err_response err of
           Some r \<Rightarrow> ''Server error: '' @ Number_toString (resp_status r) @ ''. Please try again.''
         | None \<Rightarrow>
             if err_request err
             then ''Unable to connect to the server. Please check your connection.''
             else ''Sorry, I encountered an error while processing your message.''))"

text \<open>
  \<^verbatim>\<open>handleSendMessage\<close> from the \<^verbatim>\<open>await\<close> on: the reply (or the fallback text when
  \<^verbatim>\<open>reply\<close> is missing or empty) is appended as a bot message; a failure is appended
  as a bot message with \<^verbatim>\<open>isError: true\<close>. \<^verbatim>\<open>finally\<close> clears \<^verbatim>\<open>isLoading\<close>.
\<close>

definition handleSendMessage_settled :: "int \<Rightarrow> chat_body settled \<Rightarrow> chatbot \<Rightarrow> chatbot" where
  "handleSendMessage_settled now res st =
     (case res of
        Resolved body \<Rightarrow>
          st\<lparr>cb_messages := cb_messages st @
               [\<lparr>msg_id = now + 1,
                 msg_text = (case reply body of
                               None \<Rightarrow> ''Sorry, I couldn't generate a response.''
                             | Some r \<Rightarrow>
                                 if r = [] then ''Sorry, I couldn't generate a response.'' else r),
                 msg_sender = ''bot'', msg_timestamp = now, msg_isError = None\<rparr>],
             cb_isLoading := False\<rparr>
      | Rejected err \<Rightarrow>
          st\<lparr>cb_messages := cb_messages st @
               [\<lparr>msg_id = now + 1, msg_text = errorMessage err, msg_sender = ''bot'',
                 msg_timestamp = now, msg_isError = Some True\<rparr>],
             cb_error := errorMessage err, cb_isLoading := False\<rparr>)"






subsection \<open>The chat page that keeps its conversation in localStorage\<close>

text \<open>
  A message of this page is \<^verbatim>\<open>{text, sender}\<close>. The text of a bot message is
  \<^verbatim>\<open>response.data.reply\<close> as it came, so it is absent when the reply is.
\<close>

record turn =
  turn_text :: "string option"
  turn_sender :: string

record chat =
  ch_message :: string
  ch_conversation :: "turn list"
  ch_isLoading :: bool

definition Chat_init :: chat where
  "Chat_init = \<lparr>ch_message = [], ch_conversation = [], ch_isLoading = False\<rparr>"

text \<open>
  \<^verbatim>\<open>handleSubmit\<close> up to its \<^verbatim>\<open>await\<close>. \<^verbatim>\<open>updatedConversation\<close> is the conversation
  of this render with the user's message appended; the handler keeps it for the time
  after the \<^verbatim>\<open>await\<close>. The message is sent as typed.
\<close>

definition updatedConversation :: "chat \<Rightarrow> turn list" where
  "updatedConversation st =
     ch_conversation st @ [\<lparr>turn_text = Some (ch_message st), turn_sender = ''user''\<rparr>]"

definition handleSubmit :: "chat \<Rightarrow> chat \<times> effect list" where
  "handleSubmit st =
     (if trim (ch_message st) = [] \<or> ch_isLoading st then (st, [])
      else
        (st\<lparr>ch_conversation := updatedConversation st, ch_message := [], ch_isLoading := True\<rparr>,
         [ApiPostJson ''/chat'' ''message'' (ch_message st)]))"

text \<open>
  \<^verbatim>\<open>handleSubmit\<close> from the \<^verbatim>\<open>await\<close> on, with the \<^verbatim>\<open>updatedConversation\<close> it kept:
  the conversation becomes that list with the bot's message appended, the reply or the
  fixed error text.
\<close>

definition handleSubmit_settled :: "chat_body settled \<Rightarrow> turn list \<Rightarrow> chat \<Rightarrow> chat" where
  "handleSubmit_settled res updated st =
     (case res of
        Resolved body \<Rightarrow>
          st\<lparr>ch_conversation := updated @ [\<lparr>turn_text = reply body, turn_sender = ''bot''\<rparr>],
             ch_isLoading := False\<rparr>
      | Rejected err \<Rightarrow>
          st\<lparr>ch_conversation := updated @
               [\<lparr>turn_text = Some ''Error: Could not get response from the server'', turn_sender = ''bot''\<rparr>],
             ch_isLoading := False\<rparr>)"





subsection \<open>The chat of ChatUpload\<close>

















section \<open>The persisted conversation\<close>

text \<open>
  The page writes its conversation with \<^verbatim>\<open>JSON.stringify\<close> and reads it back with
  \<^verbatim>\<open>JSON.parse\<close>. Both belong to the JavaScript platform; they are modelled here for
  the values the page writes: an array of objects with the members \<^verbatim>\<open>text\<close> (left out
  when undefined, as \<^verbatim>\<open>JSON.stringify\<close> does) and \<^verbatim>\<open>sender\<close>, both strings, with no
  white space between the tokens. A string is written between double quotes, with the
  quote, the backslash and the control characters escaped (\<^verbatim>\<open>\b \f \n \r \t\<close> and
  \<^verbatim>\<open>\u00XX\<close> in lower-case hexadecimal). Characters are 8-bit here.
\<close>

definition hexDigit :: "nat \<Rightarrow> char" where
  "hexDigit n = (if n < 10 then char_of (48 + n) else char_of (87 + n))"

definition escape :: "char \<Rightarrow> string" where
  "escape c =
     (if c = CHR 0x22 then [CHR 0x5C, CHR 0x22]
      else if c = CHR 0x5C then [CHR 0x5C, CHR 0x5C]
      else if c = CHR 0x08 then [CHR 0x5C, CHR ''b'']
      else if c = CHR 0x0C then [CHR 0x5C, CHR ''f'']
      else if c = CHR 0x0A then [CHR 0x5C, CHR ''n'']
      else if c = CHR 0x0D then [CHR 0x5C, CHR ''r'']
      else if c = CHR 0x09 then [CHR 0x5C, CHR ''t'']
      else if (of_char c :: nat) < 32
      then [CHR 0x5C, CHR ''u'', CHR ''0'', CHR ''0'',
            hexDigit (of_char c div 16), hexDigit (of_char c mod 16)]
      else [c])"

definition QuoteJSONString :: "string \<Rightarrow> string" where
  "QuoteJSONString s = CHR 0x22 # concat (map escape s) @ [CHR 0x22]"

definition stringify_turn :: "turn \<Rightarrow> string" where
  "stringify_turn t =
     ''{'' @
     (case turn_text t of
        None \<Rightarrow> []
      | Some txt \<Rightarrow> QuoteJSONString ''text'' @ '':'' @ QuoteJSONString txt @ '','') @
     QuoteJSONString ''sender'' @ '':'' @ QuoteJSONString (turn_sender t) @ ''}''"

definition JSON_stringify :: "turn list \<Rightarrow> string" where
  "JSON_stringify conv =
     ''['' @
     (case conv of
        [] \<Rightarrow> []
      | t # ts \<Rightarrow> stringify_turn t @ concat (map (\<lambda>u. '','' @ stringify_turn u) ts)) @
     '']''"

text \<open>
  Reading a string: the characters up to the closing quote, with the escapes of JSON
  undone; a control character that is not escaped, an unknown escape and an input that
  ends early are errors. An escape \<^verbatim>\<open>\uXXXX\<close> beyond the 8-bit characters has no
  counterpart in this model and is refused.
\<close>

definition hexValue :: "char \<Rightarrow> nat option" where
  "hexValue c =
     (let n = of_char c :: nat in
      if 48 \<le> n \<and> n \<le> 57 then Some (n - 48)
      else if 97 \<le> n \<and> n \<le> 102 then Some (n - 87)
      else if 65 \<le> n \<and> n \<le> 70 then Some (n - 55)
      else None)"

definition unescape :: "char \<Rightarrow> char option" where
  "unescape e =
     (if e = CHR 0x22 then Some (CHR 0x22)
      else if e = CHR 0x5C then Some (CHR 0x5C)
      else if e = CHR ''/'' then Some (CHR ''/'')
      else if e = CHR ''b'' then Some (CHR 0x08)
      else if e = CHR ''f'' then Some (CHR 0x0C)
      else if e = CHR ''n'' then Some (CHR 0x0A)
      else if e = CHR ''r'' then Some (CHR 0x0D)
      else if e = CHR ''t'' then Some (CHR 0x09)
      else None)"

definition unicodeEscape :: "char \<Rightarrow> char \<Rightarrow> char \<Rightarrow> char \<Rightarrow> char option" where
  "unicodeEscape h1 h2 h3 h4 =
     (case (hexValue h1, hexValue h2, hexValue h3, hexValue h4) of
        (Some a, Some b, Some c, Some d) \<Rightarrow>
          if ((a * 16 + b) * 16 + c) * 16 + d < 256
          then Some (char_of (((a * 16 + b) * 16 + c) * 16 + d)) else None
      | _ \<Rightarrow> None)"

fun parse_chars :: "string \<Rightarrow> (string \<times> string) option" where
  "parse_chars [] = None"
| "parse_chars (c # cs) =
     (if c = CHR 0x22 then Some ([], cs)
      else if c = CHR 0x5C then
        (case cs of
           [] \<Rightarrow> None
         | e # es \<Rightarrow>
             if e = CHR ''u'' then
               (case es of
                  h1 # h2 # h3 # h4 # rest \<Rightarrow>
                    (case unicodeEscape h1 h2 h3 h4 of
                       None \<Rightarrow> None
                     | Some x \<Rightarrow>
                         (case parse_chars rest of
                            None \<Rightarrow> None
                          | Some (xs, r) \<Rightarrow> Some (x # xs, r)))
                | _ \<Rightarrow> None)
             else
               (case unescape e of
                  None \<Rightarrow> None
                | Some x \<Rightarrow>
                    (case parse_chars es of
                       None \<Rightarrow> None
                     | Some (xs, r) \<Rightarrow> Some (x # xs, r))))
      else if (of_char c :: nat) < 32 then None
      else
        (case parse_chars cs of
           None \<Rightarrow> None
         | Some (xs, r) \<Rightarrow> Some (c # xs, r)))"

definition parse_string :: "string \<Rightarrow> (string \<times> string) option" where
  "parse_string s =
     (case s of [] \<Rightarrow> None | c # cs \<Rightarrow> if c = CHR 0x22 then parse_chars cs else None)"

definition expect :: "char \<Rightarrow> string \<Rightarrow> string option" where
  "expect c s = (case s of [] \<Rightarrow> None | d # ds \<Rightarrow> if d = c then Some ds else None)"

definition parse_member :: "string \<Rightarrow> string \<Rightarrow> (string \<times> string) option" where
  "parse_member key s =
     (case parse_string s of
        None \<Rightarrow> None
      | Some (k, s1) \<Rightarrow>
          if k \<noteq> key then None
          else (case expect (CHR '':'') s1 of None \<Rightarrow> None | Some s2 \<Rightarrow> parse_string s2))"

definition parse_turn :: "string \<Rightarrow> (turn \<times> string) option" where
  "parse_turn s =
     (case expect (CHR ''{'') s of
        None \<Rightarrow> None
      | Some s1 \<Rightarrow>
          (case parse_member ''text'' s1 of
             Some (txt, s2) \<Rightarrow>
               (case expect (CHR '','') s2 of
                  None \<Rightarrow> None
                | Some s3 \<Rightarrow>
                    (case parse_member ''sender'' s3 of
                       None \<Rightarrow> None
                     | Some (who, s4) \<Rightarrow>
                         (case expect (CHR ''}'') s4 of
                            None \<Rightarrow> None
                          | Some s5 \<Rightarrow> Some (\<lparr>turn_text = Some txt, turn_sender = who\<rparr>, s5))))
           | None \<Rightarrow>
               (case parse_member ''sender'' s1 of
                  None \<Rightarrow> None
                | Some (who, s4) \<Rightarrow>
                    (case expect (CHR ''}'') s4 of
                       None \<Rightarrow> None
                     | Some s5 \<Rightarrow> Some (\<lparr>turn_text = None, turn_sender = who\<rparr>, s5)))))"

lemma parse_chars_shorter: "parse_chars s = Some (x, r) \<Longrightarrow> length r < length s"
proof (induction s arbitrary: x r rule: length_induct)
  case (1 s)
  then have IH: "\<And>ys y q. length ys < length s \<Longrightarrow> parse_chars ys = Some (y, q) \<Longrightarrow> length q < length ys"
    by blast
  from "1.prems" show ?case
    by (cases s) (auto split: if_splits list.splits option.splits dest!: IH [rotated])
qed

lemma parse_string_shorter: "parse_string s = Some (x, r) \<Longrightarrow> length r < length s"
  by (auto simp: parse_string_def split: list.splits if_splits dest: parse_chars_shorter)

lemma expect_shorter: "expect c s = Some r \<Longrightarrow> length r < length s"
  by (auto simp: expect_def split: list.splits if_splits)

lemma parse_member_shorter: "parse_member k s = Some (x, r) \<Longrightarrow> length r < length s"
  by (fastforce simp: parse_member_def split: option.splits if_splits
      dest: parse_string_shorter expect_shorter)

lemma parse_turn_shorter: "parse_turn s = Some (t, r) \<Longrightarrow> length r < length s"
  by (fastforce simp: parse_turn_def split: option.splits
      dest: parse_member_shorter expect_shorter)

text \<open>
  The elements of the array after the first: each a comma and an object, up to the
  closing bracket. Every object read shortens the input, so the reading ends.
\<close>

function parse_more :: "string \<Rightarrow> (turn list \<times> string) option" where
  "parse_more s =
     (case s of
        [] \<Rightarrow> None
      | c # cs \<Rightarrow>
          if c = CHR '']'' then Some ([], cs)
          else if c = CHR '','' then
            (case parse_turn cs of
               None \<Rightarrow> None
             | Some (t, r) \<Rightarrow>
                 (case parse_more r of
                    None \<Rightarrow> None
                  | Some (ts, r') \<Rightarrow> Some (t # ts, r')))
          else None)"
  by pat_completeness auto
termination
  by (relation "measure length") (auto dest: parse_turn_shorter)

text \<open>
  \<^verbatim>\<open>JSON.parse\<close> on a snapshot: the conversation it denotes; \<open>None\<close> for a text that
  is not of the form described above, among them every text that is not JSON at all,
  where \<^verbatim>\<open>JSON.parse\<close> throws a \<^verbatim>\<open>SyntaxError\<close>. (A text that is JSON of another
  form, which the page never writes, is refused here as well; the properties below use
  the parser on what the page writes and on a text that is not JSON.)
\<close>

definition JSON_parse :: "string \<Rightarrow> turn list option" where
  "JSON_parse s =
     (case s of
        [] \<Rightarrow> None
      | c # cs \<Rightarrow>
          if c \<noteq> CHR ''['' then None
          else if cs = '']'' then Some []
          else
            (case parse_turn cs of
               None \<Rightarrow> None
             | Some (t, r) \<Rightarrow>
                 (case parse_more r of
                    Some (ts, []) \<Rightarrow> Some (t # ts)
                  | _ \<Rightarrow> None)))"

text \<open>
  The two effects of the page. The second one runs after every render in which the
  conversation has changed and writes the whole conversation under the key
  \<^verbatim>\<open>chatConversation\<close>. The first one runs once, when the page mounts: a stored
  snapshot that is not \<^verbatim>\<open>null\<close> and not the empty string is parsed and becomes the
  conversation. The parse is not guarded: when \<^verbatim>\<open>JSON.parse\<close> throws, the effect
  throws.
\<close>

definition saveConversation :: "chat \<Rightarrow> (string \<rightharpoonup> string) \<Rightarrow> (string \<rightharpoonup> string)" where
  "saveConversation st ls = ls(''chatConversation'' \<mapsto> JSON_stringify (ch_conversation st))"

datatype failure = SyntaxError

definition loadConversation :: "(string \<rightharpoonup> string) \<Rightarrow> chat \<Rightarrow> failure + chat" where
  "loadConversation ls st =
     (case ls ''chatConversation'' of
        None \<Rightarrow> Inr st
      | Some savedConversation \<Rightarrow>
          if savedConversation = [] then Inr st
          else
            (case JSON_parse savedConversation of
               None \<Rightarrow> Inl SyntaxError
             | Some conv \<Rightarrow> Inr (st\<lparr>ch_conversation := conv\<rparr>)))"

section \<open>Properties of the file list\<close>

lemma fetchFiles_rejected:
  "fetchFiles retryCount (Rejected err) st =
     (st, ApiGet ''/files'' #
          (if retryCount > 0 then [SetTimeout 500 (FetchFiles (retryCount - 1))] else []))"
  by (simp add: fetchFiles_def)

lemma fetchFiles_resolved:
  "fetchFiles retryCount (Resolved body) st =
     (st\<lparr>cu_uploadedFiles := (case files body of Some fs \<Rightarrow> fs | None \<Rightarrow> [])\<rparr>,
      [ApiGet ''/files''])"
  by (simp add: fetchFiles_def)

lemma fetchFiles_run_resolved:
  "api k = Resolved body \<Longrightarrow>
   fetchFiles_run retryCount api k st =
     (st\<lparr>cu_uploadedFiles := (case files body of Some fs \<Rightarrow> fs | None \<Rightarrow> [])\<rparr>,
      [ApiGet ''/files''])"
  by (simp add: fetchFiles_resolved)

lemma fetchFiles_run_rejected_last:
  "api k = Rejected err \<Longrightarrow> \<not> retryCount > 0 \<Longrightarrow>
   fetchFiles_run retryCount api k st = (st, [ApiGet ''/files''])"
  by (simp add: fetchFiles_rejected)

lemma fetchFiles_run_rejected_retry:
  "api k = Rejected err \<Longrightarrow> retryCount > 0 \<Longrightarrow>
   fetchFiles_run retryCount api k st =
     (fst (fetchFiles_run (retryCount - 1) api (Suc k) st),
      ApiGet ''/files'' # SetTimeout 500 (FetchFiles (retryCount - 1)) #
        snd (fetchFiles_run (retryCount - 1) api (Suc k) st))"
  by (subst fetchFiles_run.simps) (simp add: fetchFiles_rejected split: prod.splits)

declare fetchFiles_run.simps [simp del]

text \<open>A refresh started with \<open>retryCount\<close> sends at most \<open>retryCount + 1\<close> requests.\<close>

lemma attempts_bound:
  "attempts (snd (fetchFiles_run retryCount api k st)) \<le> Suc (nat retryCount)"
proof (induction "nat retryCount" arbitrary: retryCount k)
  case 0
  then have le: "\<not> retryCount > 0" by simp
  show ?case
  proof (cases "api k")
    case (Resolved body)
    then show ?thesis by (simp add: fetchFiles_run_resolved attempts_def)
  next
    case (Rejected err)
    then show ?thesis using le by (simp add: fetchFiles_run_rejected_last attempts_def)
  qed
next
  case (Suc n)
  then have pos: "retryCount > 0" and n: "n = nat (retryCount - 1)" by simp_all
  show ?case
  proof (cases "api k")
    case (Resolved body)
    then show ?thesis by (simp add: fetchFiles_run_resolved attempts_def)
  next
    case (Rejected err)
    have "attempts (snd (fetchFiles_run (retryCount - 1) api (Suc k) st))
            \<le> Suc (nat (retryCount - 1))"
      using Suc.hyps(1) [OF n] .
    then show ?thesis using pos Rejected
      by (simp add: fetchFiles_run_rejected_retry attempts_def nat_diff_distrib)
  qed
qed

text \<open>A refresh none of whose requests resolves leaves the component's state as it was.\<close>

lemma all_rejected_keeps:
  "(\<forall>j. \<exists>err. api j = Rejected err) \<Longrightarrow> fst (fetchFiles_run retryCount api k st) = st"
proof (induction "nat retryCount" arbitrary: retryCount k)
  case 0
  then have le: "\<not> retryCount > 0" by simp
  from "0.prems" obtain err where "api k = Rejected err" by blast
  then show ?case using le by (simp add: fetchFiles_run_rejected_last)
next
  case (Suc n)
  then have pos: "retryCount > 0" and n: "n = nat (retryCount - 1)" by simp_all
  from Suc.prems obtain err where r: "api k = Rejected err" by blast
  have "fst (fetchFiles_run (retryCount - 1) api (Suc k) st) = st"
    using Suc.hyps(1) [OF n Suc.prems] .
  then show ?case using pos r by (simp add: fetchFiles_run_rejected_retry)
qed

lemma default_all_rejected:
  assumes "\<forall>j. \<exists>err. api j = Rejected err"
  shows "fetchFiles_run fetchFiles_default api k st =
           (st, [ApiGet ''/files'', SetTimeout 500 (FetchFiles 0), ApiGet ''/files''])"
proof -
  from assms obtain e1 e2 where r: "api k = Rejected e1" "api (Suc k) = Rejected e2" by metis
  have "fetchFiles_run 0 api (Suc k) st = (st, [ApiGet ''/files''])"
    using r(2) by (simp add: fetchFiles_run_rejected_last)
  then show ?thesis using r(1)
    by (simp add: fetchFiles_default_def fetchFiles_run_rejected_retry)
qed

text \<open>
  C4, as the specification states it: a failing file-list fetch is retried up to three
  attempts. The code's default is one retry: when the first two requests are rejected
  there is no third one, although it would have resolved, and the list it would have
  brought is not in the cache.
\<close>

theorem fetchFiles_third_attempt_counterexample:
  "attempts (snd (fetchFiles_run fetchFiles_default
       (\<lambda>k. if k < 2
             then Rejected \<lparr>err_code = None, err_response = None, err_request = True,
                    err_message = ''Network Error''\<rparr>
             else Resolved \<lparr>files = Some [\<lparr>doc_id = 1, filename = ''a.pdf''\<rparr>]\<rparr>)
       0 \<lparr>cu_uploadedFiles = [], cu_isUploading = False\<rparr>)) = 2
   \<and> cu_uploadedFiles (fst (fetchFiles_run fetchFiles_default
       (\<lambda>k. if k < 2
             then Rejected \<lparr>err_code = None, err_response = None, err_request = True,
                    err_message = ''Network Error''\<rparr>
             else Resolved \<lparr>files = Some [\<lparr>doc_id = 1, filename = ''a.pdf''\<rparr>]\<rparr>)
       0 \<lparr>cu_uploadedFiles = [], cu_isUploading = False\<rparr>))
     \<noteq> [\<lparr>doc_id = 1, filename = ''a.pdf''\<rparr>]"
  by (simp add: fetchFiles_default_def fetchFiles_run_rejected_retry [where err =
        "\<lparr>err_code = None, err_response = None, err_request = True, err_message = ''Network Error''\<rparr>"]
      fetchFiles_run_rejected_last [where err =
        "\<lparr>err_code = None, err_response = None, err_request = True, err_message = ''Network Error''\<rparr>"]
      attempts_def)

text \<open>
  C4, amended: a refresh sends at most two requests (the first and one retry, 500 ms
  after the first was rejected). When every request of the refresh is rejected, the
  refresh is exactly these two requests and the component's state, the cached list in
  it, is what it was before.
\<close>

theorem fetchFiles_one_retry_keeps_cache:
  "attempts (snd (fetchFiles_run fetchFiles_default api k st)) \<le> 2
   \<and> ((\<forall>j. \<exists>err. api j = Rejected err) \<longrightarrow>
        fetchFiles_run fetchFiles_default api k st =
          (st, [ApiGet ''/files'', SetTimeout 500 (FetchFiles 0), ApiGet ''/files'']))"
  using attempts_bound [of fetchFiles_default api k st] default_all_rejected [of api k st]
  by (simp add: fetchFiles_default_def)

theorem fetchFiles_one_retry_keeps_cache_witness:
  "(\<forall>j. \<exists>err. (\<lambda>j. Rejected \<lparr>err_code = None, err_response = None, err_request = True,
        err_message = ''Network Error''\<rparr> :: files_body settled) j = Rejected err)
   \<and> fetchFiles_run fetchFiles_default
        (\<lambda>j. Rejected \<lparr>err_code = None, err_response = None, err_request = True,
               err_message = ''Network Error''\<rparr>)
        0 \<lparr>cu_uploadedFiles = [\<lparr>doc_id = 1, filename = ''a.pdf''\<rparr>], cu_isUploading = False\<rparr>
      = (\<lparr>cu_uploadedFiles = [\<lparr>doc_id = 1, filename = ''a.pdf''\<rparr>], cu_isUploading = False\<rparr>,
         [ApiGet ''/files'', SetTimeout 500 (FetchFiles 0), ApiGet ''/files''])"
  using fetchFiles_one_retry_keeps_cache
    [of "\<lambda>j. Rejected \<lparr>err_code = None, err_response = None, err_request = True,
               err_message = ''Network Error''\<rparr>"
        0 "\<lparr>cu_uploadedFiles = [\<lparr>doc_id = 1, filename = ''a.pdf''\<rparr>], cu_isUploading = False\<rparr>"]
  by simp

text \<open>
  C10: a \<^verbatim>\<open>GET /files\<close> that resolves with a body without the \<^verbatim>\<open>files\<close> field sets
  the cached list to the empty list, whatever it held, in both versions of
  \<^verbatim>\<open>fetchFiles\<close> and at any point of a refresh.
\<close>

theorem fetchFiles_missing_field_empties_cache:
  "files body = None \<Longrightarrow>
     cu_uploadedFiles (fst (fetchFiles_v1 (Resolved body) st)) = []
   \<and> cu_uploadedFiles (fst (fetchFiles retryCount (Resolved body) st)) = []
   \<and> cu_uploadedFiles (fst (fetchFiles_run retryCount (\<lambda>j. Resolved body) k st)) = []"
  by (simp add: fetchFiles_v1_def fetchFiles_resolved fetchFiles_run_resolved)

theorem fetchFiles_missing_field_empties_cache_witness:
  "files \<lparr>files = None\<rparr> = None
   \<and> cu_uploadedFiles (fst (fetchFiles_v1 (Resolved \<lparr>files = None\<rparr>)
        \<lparr>cu_uploadedFiles = [\<lparr>doc_id = 1, filename = ''a.pdf''\<rparr>], cu_isUploading = False\<rparr>)) = []
   \<and> cu_uploadedFiles (fst (fetchFiles 1 (Resolved \<lparr>files = None\<rparr>)
        \<lparr>cu_uploadedFiles = [\<lparr>doc_id = 1, filename = ''a.pdf''\<rparr>], cu_isUploading = False\<rparr>)) = []
   \<and> cu_uploadedFiles (fst (fetchFiles_run 1 (\<lambda>j. Resolved \<lparr>files = None\<rparr>) 0
        \<lparr>cu_uploadedFiles = [\<lparr>doc_id = 1, filename = ''a.pdf''\<rparr>], cu_isUploading = False\<rparr>)) = []"
  using fetchFiles_missing_field_empties_cache
    [of "\<lparr>files = None\<rparr>"
        "\<lparr>cu_uploadedFiles = [\<lparr>doc_id = 1, filename = ''a.pdf''\<rparr>], cu_isUploading = False\<rparr>" 1 0]
  by simp

section \<open>Properties of the upload\<close>

lemma posted_files_append: "posted_files (xs @ ys) = posted_files xs @ posted_files ys"
  by (induction xs rule: posted_files.induct) simp_all

lemma Upload_inv_step: "Upload_inv c \<Longrightarrow> Upload_inv (Upload_step c ev)"
proof (cases c)
  case (Pair st sofar)
  assume inv: "Upload_inv c"
  show ?thesis
  proof (cases ev)
    case (FileChange sel)
    then show ?thesis using inv Pair
      by (auto simp: Upload_inv_def Upload_handleFileChange_def split: option.splits)
  next
    case Submit
    then show ?thesis using inv Pair
      by (auto simp: Upload_inv_def Upload_handleSubmit_def posted_files_append
          split: option.splits)
  next
    case (Settled res)
    then show ?thesis using inv Pair
      by (auto simp: Upload_inv_def Upload_handleSubmit_settled_def posted_files_append
          split: settled.splits)
  qed
qed

lemma Upload_inv_foldl: "Upload_inv c \<Longrightarrow> Upload_inv (foldl Upload_step c events)"
  by (induction events arbitrary: c) (simp_all add: Upload_inv_step)

lemma Upload_inv_run: "Upload_inv (Upload_run events)"
  unfolding Upload_run_def
  by (rule Upload_inv_foldl) (simp add: Upload_inv_def Upload_init_def)

text \<open>
  C2: a selected file over the limit is rejected and never sent. In \<^verbatim>\<open>ChatUpload\<close>
  (both versions) the handler alerts and returns: no request, no change of state,
  however the backend would have answered. In \<^verbatim>\<open>Upload\<close> the handler sets the
  error and keeps the file chosen before, and whatever the user does before and after,
  no \<^verbatim>\<open>POST /upload\<close> of the component ever carries the oversized file.
\<close>

theorem oversized_file_never_sent:
  "file_size f > maxFileSize \<Longrightarrow>
     \<not> list_ex is_network (snd (handleFileChange (Some f) post get st))
   \<and> \<not> list_ex is_network (snd (handleFileChange_v1 (Some f) post get st))
   \<and> fst (handleFileChange (Some f) post get st) = st
   \<and> fst (handleFileChange_v1 (Some f) post get st) = st
   \<and> Upload_handleFileChange (Some f) ust = ust\<lparr>up_error := ''File size exceeds 5MB limit''\<rparr>
   \<and> f \<notin> set (posted_files (snd (Upload_run events)))"
proof -
  assume big: "file_size f > maxFileSize"
  have "list_all (\<lambda>g. file_size g \<le> maxFileSize) (posted_files (snd (Upload_run events)))"
    using Upload_inv_run [of events] by (simp add: Upload_inv_def)
  then have "f \<notin> set (posted_files (snd (Upload_run events)))"
    using big by (auto simp: list_all_iff)
  then show ?thesis using big
    by (simp add: handleFileChange_def handleFileChange_v1_def Upload_handleFileChange_def)
qed

theorem oversized_file_never_sent_witness:
  "file_size \<lparr>file_name = ''big.pdf'', file_size = 6000000\<rparr> > maxFileSize
   \<and> \<not> list_ex is_network (snd (handleFileChange
         (Some \<lparr>file_name = ''big.pdf'', file_size = 6000000\<rparr>)
         (Resolved \<lparr>upload_message = Some ''ok''\<rparr>) (Resolved \<lparr>files = Some []\<rparr>)
         \<lparr>cu_uploadedFiles = [], cu_isUploading = False\<rparr>))
   \<and> \<not> list_ex is_network (snd (handleFileChange_v1
         (Some \<lparr>file_name = ''big.pdf'', file_size = 6000000\<rparr>)
         (Resolved \<lparr>upload_message = Some ''ok''\<rparr>) (Resolved \<lparr>files = Some []\<rparr>)
         \<lparr>cu_uploadedFiles = [], cu_isUploading = False\<rparr>))
   \<and> \<lparr>file_name = ''big.pdf'', file_size = 6000000\<rparr> \<notin> set (posted_files (snd (Upload_run
         [FileChange (Some \<lparr>file_name = ''small.pdf'', file_size = 1000\<rparr>),
          FileChange (Some \<lparr>file_name = ''big.pdf'', file_size = 6000000\<rparr>),
          Submit, Settled (Resolved \<lparr>upload_message = Some ''ok''\<rparr>)])))"
  using oversized_file_never_sent
    [of "\<lparr>file_name = ''big.pdf'', file_size = 6000000\<rparr>"
        "Resolved \<lparr>upload_message = Some ''ok''\<rparr>" "Resolved \<lparr>files = Some []\<rparr>"
        "\<lparr>cu_uploadedFiles = [], cu_isUploading = False\<rparr>" Upload_init
        "[FileChange (Some \<lparr>file_name = ''small.pdf'', file_size = 1000\<rparr>),
          FileChange (Some \<lparr>file_name = ''big.pdf'', file_size = 6000000\<rparr>),
          Submit, Settled (Resolved \<lparr>upload_message = Some ''ok''\<rparr>)]"]
  by (simp add: maxFileSize_def)

text \<open>
  C8, as the specification states it: a successful upload triggers one refresh of the
  file list and, after the settle delay, one navigation to the conversation. Neither
  component does both. \<^verbatim>\<open>Upload\<close>, given a 3 MB PDF, sends the file and schedules the
  navigation, and never asks for the file list; \<^verbatim>\<open>ChatUpload\<close> refreshes the list
  and does not navigate.
\<close>

theorem upload_refresh_and_navigation_counterexample:
  "snd (Upload_run
       [FileChange (Some \<lparr>file_name = ''report.pdf'', file_size = 3145728\<rparr>), Submit,
        Settled (Resolved \<lparr>upload_message = Some ''ok''\<rparr>)])
     = [ApiPostFile ''/upload'' ''document'' \<lparr>file_name = ''report.pdf'', file_size = 3145728\<rparr>,
        SetTimeout 1500 (NavigateTo ''/chatbot'')]
   \<and> attempts (snd (Upload_run
       [FileChange (Some \<lparr>file_name = ''report.pdf'', file_size = 3145728\<rparr>), Submit,
        Settled (Resolved \<lparr>upload_message = Some ''ok''\<rparr>)])) = 0
   \<and> filter is_navigation (snd (handleFileChange
        (Some \<lparr>file_name = ''report.pdf'', file_size = 3145728\<rparr>)
        (Resolved \<lparr>upload_message = Some ''ok''\<rparr>)
        (Resolved \<lparr>files = Some [\<lparr>doc_id = 1, filename = ''report.pdf''\<rparr>]\<rparr>)
        \<lparr>cu_uploadedFiles = [], cu_isUploading = False\<rparr>)) = []"
  by (simp add: Upload_run_def Upload_init_def Upload_handleFileChange_def
      Upload_handleSubmit_def Upload_handleSubmit_settled_def maxFileSize_def attempts_def
      handleFileChange_def fetchFiles_def fetchFiles_default_def)

text \<open>
  C8, amended: in \<^verbatim>\<open>Upload\<close>, submitting the chosen file and getting the backend's
  acknowledgement sends that one file, marks success and schedules exactly one
  navigation to \<^verbatim>\<open>/chatbot\<close>, 1500 ms later; no refresh of the file list. In
  \<^verbatim>\<open>ChatUpload\<close>, a file within the limit whose upload is acknowledged is followed,
  one second later, by exactly one call of \<^verbatim>\<open>fetchFiles\<close>, then the alert; no
  navigation.
\<close>

theorem upload_success_navigates_or_refreshes:
  "(up_file ust = Some f \<longrightarrow>
      snd (Upload_handleSubmit ust) @
        snd (Upload_handleSubmit_settled (Resolved body) (fst (Upload_handleSubmit ust)))
        = [ApiPostFile ''/upload'' ''document'' f, SetTimeout 1500 (NavigateTo ''/chatbot'')]
      \<and> up_success (fst (Upload_handleSubmit_settled (Resolved body) (fst (Upload_handleSubmit ust)))))
   \<and> (file_size f \<le> maxFileSize \<longrightarrow>
      snd (handleFileChange (Some f) (Resolved body) get st) =
        [ApiPostFile ''/upload'' ''document'' f, Sleep 1000] @
        snd (fetchFiles fetchFiles_default get (st\<lparr>cu_isUploading := True\<rparr>)) @
        [Alert (case upload_message body of
                  None \<Rightarrow> ''File uploaded successfully''
                | Some m \<Rightarrow> if m = [] then ''File uploaded successfully'' else m)]
      \<and> attempts (snd (handleFileChange (Some f) (Resolved body) get st)) = 1
      \<and> filter is_navigation (snd (handleFileChange (Some f) (Resolved body) get st)) = [])"
proof -
  have first: "(up_file ust = Some f \<longrightarrow>
      snd (Upload_handleSubmit ust) @
        snd (Upload_handleSubmit_settled (Resolved body) (fst (Upload_handleSubmit ust)))
        = [ApiPostFile ''/upload'' ''document'' f, SetTimeout 1500 (NavigateTo ''/chatbot'')]
      \<and> up_success (fst (Upload_handleSubmit_settled (Resolved body) (fst (Upload_handleSubmit ust)))))"
    by (simp add: Upload_handleSubmit_def Upload_handleSubmit_settled_def)
  have second: "(file_size f \<le> maxFileSize \<longrightarrow>
      snd (handleFileChange (Some f) (Resolved body) get st) =
        [ApiPostFile ''/upload'' ''document'' f, Sleep 1000] @
        snd (fetchFiles fetchFiles_default get (st\<lparr>cu_isUploading := True\<rparr>)) @
        [Alert (case upload_message body of
                  None \<Rightarrow> ''File uploaded successfully''
                | Some m \<Rightarrow> if m = [] then ''File uploaded successfully'' else m)]
      \<and> attempts (snd (handleFileChange (Some f) (Resolved body) get st)) = 1
      \<and> filter is_navigation (snd (handleFileChange (Some f) (Resolved body) get st)) = [])"
    by (cases get)
       (simp_all add: handleFileChange_def fetchFiles_def attempts_def split: prod.splits)
  from first second show ?thesis by (rule conjI)
qed

theorem upload_success_navigates_or_refreshes_witness:
  "up_file (Upload_handleFileChange (Some \<lparr>file_name = ''report.pdf'', file_size = 3145728\<rparr>)
       Upload_init) = Some \<lparr>file_name = ''report.pdf'', file_size = 3145728\<rparr>
   \<and> file_size \<lparr>file_name = ''report.pdf'', file_size = 3145728\<rparr> \<le> maxFileSize
   \<and> up_success (fst (Upload_handleSubmit_settled (Resolved \<lparr>upload_message = Some ''ok''\<rparr>)
       (fst (Upload_handleSubmit
          (Upload_handleFileChange (Some \<lparr>file_name = ''report.pdf'', file_size = 3145728\<rparr>)
             Upload_init)))))
   \<and> attempts (snd (handleFileChange (Some \<lparr>file_name = ''report.pdf'', file_size = 3145728\<rparr>)
       (Resolved \<lparr>upload_message = Some ''ok''\<rparr>)
       (Resolved \<lparr>files = Some [\<lparr>doc_id = 1, filename = ''report.pdf''\<rparr>]\<rparr>)
       \<lparr>cu_uploadedFiles = [], cu_isUploading = False\<rparr>)) = 1"
proof -
  have chosen: "up_file (Upload_handleFileChange
        (Some \<lparr>file_name = ''report.pdf'', file_size = 3145728\<rparr>) Upload_init)
      = Some \<lparr>file_name = ''report.pdf'', file_size = 3145728\<rparr>"
    by (simp add: maxFileSize_def Upload_handleFileChange_def Upload_init_def)
  have small: "file_size \<lparr>file_name = ''report.pdf'', file_size = 3145728\<rparr> \<le> maxFileSize"
    by (simp add: maxFileSize_def)
  note both = upload_success_navigates_or_refreshes
    [of "Upload_handleFileChange (Some \<lparr>file_name = ''report.pdf'', file_size = 3145728\<rparr>)
           Upload_init"
        "\<lparr>file_name = ''report.pdf'', file_size = 3145728\<rparr>"
        "\<lparr>upload_message = Some ''ok''\<rparr>"
        "Resolved \<lparr>files = Some [\<lparr>doc_id = 1, filename = ''report.pdf''\<rparr>]\<rparr>"
        "\<lparr>cu_uploadedFiles = [], cu_isUploading = False\<rparr>"]
  from both chosen small show ?thesis by blast
qed

section \<open>Properties of the session\<close>




text \<open>
  C9, as the specification states it: every logout clears the stored credential.
  \<^verbatim>\<open>handleLogout\<close> of \<^verbatim>\<open>ChatUpload\<close> only navigates: the token is still stored, and
  the component's own gate lets the user back in.
\<close>

theorem logout_keeps_token_counterexample:
  "localStorage (fst (ChatUpload_handleLogout
       \<lparr>localStorage = [''token'' \<mapsto> ''abc'', ''username'' \<mapsto> ''ann''],
        location = ''/chatUpload''\<rparr>)) ''token'' = Some ''abc''
   \<and> ChatUpload_onMount_v1 (fst (ChatUpload_handleLogout
       \<lparr>localStorage = [''token'' \<mapsto> ''abc'', ''username'' \<mapsto> ''ann''],
        location = ''/chatUpload''\<rparr>)) = Allow
   \<and> ChatUpload_onMount (fst (ChatUpload_handleLogout
       \<lparr>localStorage = [''token'' \<mapsto> ''abc'', ''username'' \<mapsto> ''ann''],
        location = ''/chatUpload''\<rparr>)) = Allow"
  by (simp add: ChatUpload_handleLogout_def ChatUpload_onMount_v1_def ChatUpload_onMount_def)

text \<open>
  C9, amended: the logout of the navigation bar (both versions) removes the stored
  token, so that reading it yields nothing and the token gate redirects to the login
  view; the logout of \<^verbatim>\<open>ChatUpload\<close> keeps \<^verbatim>\<open>localStorage\<close> as it is and only
  navigates to \<^verbatim>\<open>/login\<close>. The logout of the first application's pages removes
  the key \<^verbatim>\<open>isAuthenticated\<close>, which is what its gate reads.
\<close>

theorem logout_clears_token:
  "localStorage (fst (Navbar_handleLogout b)) ''token'' = None
   \<and> ChatUpload_onMount_v1 (fst (Navbar_handleLogout b)) = Redirect ''/login''
   \<and> ChatUpload_onMount (fst (Navbar_handleLogout b)) = Redirect ''/Login''
   \<and> location (fst (Navbar_handleLogout b)) = ''/login''
   \<and> localStorage (fst (Navbar_handleLogout_username b)) ''token'' = None
   \<and> localStorage (fst (Navbar_handleLogout_username b)) ''username'' = None
   \<and> ChatUpload_onMount_v1 (fst (Navbar_handleLogout_username b)) = Redirect ''/login''
   \<and> ChatUpload_onMount (fst (Navbar_handleLogout_username b)) = Redirect ''/Login''
   \<and> location (fst (Navbar_handleLogout_username b)) = ''/login''
   \<and> localStorage (fst (ChatUpload_handleLogout b)) = localStorage b
   \<and> location (fst (ChatUpload_handleLogout b)) = ''/login''
   \<and> localStorage (fst (Chatbot_handleLogout b)) ''isAuthenticated'' = None
   \<and> ProtectedRoute (fst (Chatbot_handleLogout b)) = Redirect ''/''"
  by (simp add: Navbar_handleLogout_def Navbar_handleLogout_username_def
      ChatUpload_handleLogout_def ChatUpload_onMount_v1_def ChatUpload_onMount_def
      Chatbot_handleLogout_def ProtectedRoute_def)

section \<open>Properties of the conversation\<close>










lemma errorMessage_nonempty: "errorMessage err \<noteq> []"
  by (simp add: errorMessage_def split: option.splits)

text \<open>
  C5, as the specification states it: the message a failed send appends is flagged
  \<^verbatim>\<open>isError = true\<close>. On the page that keeps its conversation in localStorage a
  message is \<^verbatim>\<open>{text, sender}\<close> and nothing else: after a failed send the conversation
  is the very one a successful send leaves whose reply is that text.
\<close>

theorem failed_send_unflagged_counterexample:
  "ch_conversation (handleSubmit_settled
       (Rejected \<lparr>err_code = None, err_response = None, err_request = True,
                  err_message = ''Network Error''\<rparr>)
       (updatedConversation \<lparr>ch_message = ''Hi'', ch_conversation = [], ch_isLoading = False\<rparr>)
       (fst (handleSubmit \<lparr>ch_message = ''Hi'', ch_conversation = [], ch_isLoading = False\<rparr>)))
     = [\<lparr>turn_text = Some ''Hi'', turn_sender = ''user''\<rparr>,
        \<lparr>turn_text = Some ''Error: Could not get response from the server'', turn_sender = ''bot''\<rparr>]
   \<and> handleSubmit_settled
       (Rejected \<lparr>err_code = None, err_response = None, err_request = True,
                  err_message = ''Network Error''\<rparr>)
       (updatedConversation \<lparr>ch_message = ''Hi'', ch_conversation = [], ch_isLoading = False\<rparr>)
       (fst (handleSubmit \<lparr>ch_message = ''Hi'', ch_conversation = [], ch_isLoading = False\<rparr>))
     = handleSubmit_settled
       (Resolved \<lparr>reply = Some ''Error: Could not get response from the server''\<rparr>)
       (updatedConversation \<lparr>ch_message = ''Hi'', ch_conversation = [], ch_isLoading = False\<rparr>)
       (fst (handleSubmit \<lparr>ch_message = ''Hi'', ch_conversation = [], ch_isLoading = False\<rparr>))"
  by (simp add: handleSubmit_settled_def updatedConversation_def)

text \<open>
  C5, amended: a send that is accepted appends the user's message once, and when its
  call fails exactly one bot message follows it, carrying a description of the failure
  that is not empty; nothing before it is changed. On the page with error flags that
  message has \<^verbatim>\<open>isError = true\<close>; on the page that keeps its conversation in
  localStorage it has the fixed error text and no flag.
\<close>

theorem failed_send_appends_one_error_message:
  "cb_messages (handleSendMessage_settled later (Rejected err) st)
     = cb_messages st @
       [\<lparr>msg_id = later + 1, msg_text = errorMessage err, msg_sender = ''bot'',
         msg_timestamp = later, msg_isError = Some True\<rparr>]
   \<and> errorMessage err \<noteq> []
   \<and> (trim (cb_inputMessage st) \<noteq> [] \<and> \<not> cb_isLoading st \<longrightarrow>
        cb_messages (handleSendMessage_settled later (Rejected err) (fst (handleSendMessage now st)))
          = cb_messages st @
            [\<lparr>msg_id = now, msg_text = trim (cb_inputMessage st), msg_sender = ''user'',
              msg_timestamp = now, msg_isError = None\<rparr>,
             \<lparr>msg_id = later + 1, msg_text = errorMessage err, msg_sender = ''bot'',
              msg_timestamp = later, msg_isError = Some True\<rparr>])
   \<and> ch_conversation (handleSubmit_settled (Rejected err) updated cst)
     = updated @
       [\<lparr>turn_text = Some ''Error: Could not get response from the server'', turn_sender = ''bot''\<rparr>]
   \<and> (trim (ch_message cst) \<noteq> [] \<and> \<not> ch_isLoading cst \<longrightarrow>
        ch_conversation (handleSubmit_settled (Rejected err) (updatedConversation cst)
            (fst (handleSubmit cst)))
          = ch_conversation cst @
            [\<lparr>turn_text = Some (ch_message cst), turn_sender = ''user''\<rparr>,
             \<lparr>turn_text = Some ''Error: Could not get response from the server'',
              turn_sender = ''bot''\<rparr>])"
  by (simp add: handleSendMessage_settled_def handleSendMessage_def handleSubmit_settled_def
      handleSubmit_def updatedConversation_def errorMessage_nonempty)

theorem failed_send_appends_one_error_message_witness:
  "trim (cb_inputMessage ((Chatbot_init 1000)\<lparr>cb_inputMessage := ''Hi''\<rparr>)) \<noteq> []
   \<and> \<not> cb_isLoading ((Chatbot_init 1000)\<lparr>cb_inputMessage := ''Hi''\<rparr>)
   \<and> cb_messages (handleSendMessage_settled 1500
        (Rejected \<lparr>err_code = Some ''ECONNABORTED'', err_response = None, err_request = True,
                   err_message = ''timeout of 30000ms exceeded''\<rparr>)
        (fst (handleSendMessage 1001 ((Chatbot_init 1000)\<lparr>cb_inputMessage := ''Hi''\<rparr>))))
     = cb_messages (Chatbot_init 1000) @
         [\<lparr>msg_id = 1001, msg_text = ''Hi'', msg_sender = ''user'',
           msg_timestamp = 1001, msg_isError = None\<rparr>,
          \<lparr>msg_id = 1501, msg_text = ''Request timed out. Please try again.'', msg_sender = ''bot'',
           msg_timestamp = 1500, msg_isError = Some True\<rparr>]
   \<and> trim (ch_message (Chat_init\<lparr>ch_message := ''Hi''\<rparr>)) \<noteq> []
   \<and> \<not> ch_isLoading (Chat_init\<lparr>ch_message := ''Hi''\<rparr>)
   \<and> ch_conversation (handleSubmit_settled
        (Rejected \<lparr>err_code = Some ''ECONNABORTED'', err_response = None, err_request = True,
                   err_message = ''timeout of 30000ms exceeded''\<rparr>)
        (updatedConversation (Chat_init\<lparr>ch_message := ''Hi''\<rparr>))
        (fst (handleSubmit (Chat_init\<lparr>ch_message := ''Hi''\<rparr>))))
     = [\<lparr>turn_text = Some ''Hi'', turn_sender = ''user''\<rparr>,
        \<lparr>turn_text = Some ''Error: Could not get response from the server'', turn_sender = ''bot''\<rparr>]"
proof -
  have typed: "trim ''Hi'' = ''Hi''"
    by (simp add: trim_def isWhiteSpace_def)
  have err: "errorMessage \<lparr>err_code = Some ''ECONNABORTED'', err_response = None,
        err_request = True, err_message = ''timeout of 30000ms exceeded''\<rparr>
      = ''Request timed out. Please try again.''"
    by (simp add: errorMessage_def)
  note appended = failed_send_appends_one_error_message
    [of 1500 "\<lparr>err_code = Some ''ECONNABORTED'', err_response = None, err_request = True,
                 err_message = ''timeout of 30000ms exceeded''\<rparr>"
        "(Chatbot_init 1000)\<lparr>cb_inputMessage := ''Hi''\<rparr>" 1001
        "updatedConversation (Chat_init\<lparr>ch_message := ''Hi''\<rparr>)"
        "Chat_init\<lparr>ch_message := ''Hi''\<rparr>"]
  from appended typed err show ?thesis
    by (simp add: Chatbot_init_def Chat_init_def)
qed

section \<open>Properties of the persisted conversation\<close>

lemma hexValue_hexDigit: "n < 16 \<Longrightarrow> hexValue (hexDigit n) = Some n"
  by (simp add: hexValue_def hexDigit_def Let_def)

lemma unicodeEscape_control:
  assumes "(of_char c :: nat) < 32"
  shows "unicodeEscape (CHR ''0'') (CHR ''0'') (hexDigit (of_char c div 16))
           (hexDigit (of_char c mod 16)) = Some c"
proof -
  have zero: "hexValue (CHR ''0'') = Some 0"
    by (simp add: hexValue_def)
  have hi: "hexValue (hexDigit (of_char c div 16)) = Some (of_char c div 16)"
    using assms by (intro hexValue_hexDigit) simp
  have lo: "hexValue (hexDigit (of_char c mod 16)) = Some (of_char c mod 16)"
    by (intro hexValue_hexDigit) simp
  have "(of_char c div 16) * 16 + of_char c mod 16 = (of_char c :: nat)"
    by simp
  then show ?thesis using assms
    by (simp add: unicodeEscape_def zero hi lo)
qed

lemma parse_chars_escape:
  "parse_chars (escape c @ rest) =
     (case parse_chars rest of None \<Rightarrow> None | Some (xs, r) \<Rightarrow> Some (c # xs, r))"
proof -
  consider (special) "c \<in> {CHR 0x22, CHR 0x5C, CHR 0x08, CHR 0x0C, CHR 0x0A, CHR 0x0D, CHR 0x09}"
    | (control) "c \<notin> {CHR 0x22, CHR 0x5C, CHR 0x08, CHR 0x0C, CHR 0x0A, CHR 0x0D, CHR 0x09}"
        "(of_char c :: nat) < 32"
    | (plain) "c \<notin> {CHR 0x22, CHR 0x5C, CHR 0x08, CHR 0x0C, CHR 0x0A, CHR 0x0D, CHR 0x09}"
        "\<not> (of_char c :: nat) < 32"
    by blast
  then show ?thesis
  proof cases
    case special
    then show ?thesis
      by (auto simp: escape_def unescape_def split: option.splits)
  next
    case control
    then show ?thesis
      by (simp add: escape_def unicodeEscape_control split: option.splits)
  next
    case plain
    then show ?thesis
      by (simp add: escape_def split: option.splits)
  qed
qed

lemma parse_chars_quoted: "parse_chars (concat (map escape s) @ CHR 0x22 # r) = Some (s, r)"
  by (induction s) (simp_all add: parse_chars_escape)

lemma parse_string_quoted: "parse_string (QuoteJSONString s @ r) = Some (s, r)"
  by (simp add: parse_string_def QuoteJSONString_def parse_chars_quoted)

lemma parse_member_quoted:
  "parse_member key (QuoteJSONString key @ CHR '':'' # QuoteJSONString v @ r) = Some (v, r)"
  by (simp add: parse_member_def parse_string_quoted expect_def)

lemma parse_member_other:
  "key \<noteq> key' \<Longrightarrow> parse_member key (QuoteJSONString key' @ r) = None"
  by (simp add: parse_member_def parse_string_quoted)

lemma parse_turn_stringify: "parse_turn (stringify_turn t @ r) = Some (t, r)"
proof (cases "turn_text t")
  case None
  then show ?thesis
    by (simp add: parse_turn_def stringify_turn_def expect_def parse_member_quoted
        parse_member_other)
next
  case (Some v)
  then show ?thesis
    by (simp add: parse_turn_def stringify_turn_def expect_def parse_member_quoted)
qed

lemma parse_more_stringify:
  "parse_more (concat (map (\<lambda>u. '','' @ stringify_turn u) ts) @ CHR '']'' # r) = Some (ts, r)"
  by (induction ts) (simp_all add: parse_turn_stringify)

lemma stringify_turn_brace: "\<exists>s. stringify_turn t = CHR ''{'' # s"
  by (simp add: stringify_turn_def)

lemma JSON_roundtrip: "JSON_parse (JSON_stringify conv) = Some conv"
proof (cases conv)
  case Nil
  then show ?thesis by (simp add: JSON_parse_def JSON_stringify_def)
next
  case (Cons t ts)
  obtain s where brace: "stringify_turn t = CHR ''{'' # s"
    using stringify_turn_brace by blast
  have "parse_turn (stringify_turn t @ concat (map (\<lambda>u. '','' @ stringify_turn u) ts) @ '']'')
          = Some (t, concat (map (\<lambda>u. '','' @ stringify_turn u) ts) @ '']'')"
    by (rule parse_turn_stringify)
  moreover have "parse_more (concat (map (\<lambda>u. '','' @ stringify_turn u) ts) @ '']'') = Some (ts, [])"
    using parse_more_stringify [of ts "[]"] by simp
  ultimately show ?thesis using Cons brace
    by (simp add: JSON_parse_def JSON_stringify_def)
qed

lemma JSON_stringify_nonempty: "JSON_stringify conv \<noteq> []"
  by (simp add: JSON_stringify_def)

text \<open>
  C6: what the page saves it loads again. Whatever the conversation, and whatever else
  is stored, saving it and then loading into a page (a fresh one after a restart, or
  any other) succeeds and gives that page the conversation that was saved.
\<close>

theorem save_then_load_restores_conversation:
  "loadConversation (saveConversation st ls) st' = Inr (st'\<lparr>ch_conversation := ch_conversation st\<rparr>)
   \<and> JSON_parse (JSON_stringify (ch_conversation st)) = Some (ch_conversation st)"
  by (simp add: loadConversation_def saveConversation_def JSON_stringify_nonempty JSON_roundtrip)

text \<open>
  C7, as the specification states it: a malformed snapshot is treated as absent. The
  load parses whatever is stored without a guard: with the text \<^verbatim>\<open>{\<close> under the key, the
  load fails with the parser's error instead of starting fresh.
\<close>

theorem malformed_snapshot_counterexample:
  "loadConversation [''chatConversation'' \<mapsto> ''{''] Chat_init = Inl SyntaxError"
  by (simp add: loadConversation_def JSON_parse_def)

text \<open>
  C7, amended: a missing snapshot (no value under the key, or the empty string) is
  treated as absent: the load does not fail and leaves the page as it is, which for a
  page that has just mounted is the empty conversation.
\<close>

theorem missing_snapshot_starts_fresh:
  "ls ''chatConversation'' = None \<or> ls ''chatConversation'' = Some [] \<Longrightarrow>
     loadConversation ls st = Inr st
   \<and> loadConversation ls Chat_init = Inr Chat_init
   \<and> ch_conversation Chat_init = []"
  by (auto simp: loadConversation_def Chat_init_def)

theorem missing_snapshot_starts_fresh_witness:
  "[''token'' \<mapsto> ''abc''] ''chatConversation'' = None
   \<and> loadConversation [''token'' \<mapsto> ''abc''] Chat_init = Inr Chat_init
   \<and> ch_conversation Chat_init = []"
proof -
  have missing: "[''token'' \<mapsto> ''abc''] ''chatConversation'' = None"
    by simp
  then have "[''token'' \<mapsto> ''abc''] ''chatConversation'' = None
      \<or> [''token'' \<mapsto> ''abc''] ''chatConversation'' = Some []"
    by (rule disjI1)
  from missing_snapshot_starts_fresh [of "[''token'' \<mapsto> ''abc'']" Chat_init, OF this] missing
  show ?thesis
    by blast
qed

end
